theory Spec2Isabelle
  imports Main
begin

section \<open>The inline autoformatting engine (src/src/inlineautoformatediting.js)\<close>

text \<open>
  The engine is the constructor of \<open>InlineAutoformatEditing\<close>: it normalises its two
  overloaded arguments into a test callback and a format callback and registers one
  listener on the document's \<open>change\<close> event. The model below follows the file from
  top to bottom. JavaScript strings are lists of characters (one \<open>char\<close> per code
  unit), numbers that hold offsets are \<open>int\<close>, \<open>undefined\<close> is \<open>None\<close>.
\<close>

subsection \<open>Values\<close>

datatype error = TypeError

text \<open>
  An offset pair of the test output is a JavaScript array such as \<open>[0, 1]\<close>; the tests
  of the repository also pass \<open>[]\<close>. Reading past the end of an array gives
  \<open>undefined\<close>.
\<close>

type_synonym pair = "int option list"

definition at :: "'a option list \<Rightarrow> nat \<Rightarrow> 'a option" where
  "at array i = (if i < length array then array ! i else None)"

record test_output =
  remove :: "pair list"
  format :: "pair list"

subsection \<open>The host's regular expressions\<close>

text \<open>
  The pattern of a regular expression is taken as a parameter: its matcher, which tries
  to match the text at exactly one start position and answers the end position together
  with the captures of the groups 1, 2, ... (\<open>None\<close> for a group that took no part in
  the match). \<open>exec\<close> is \<open>RegExp.prototype.exec\<close> as ECMAScript defines it for a
  regular expression with the global flag, which the examples of the constructor's
  documentation carry: it searches from
  \<open>lastIndex\<close> onwards (\<open>search\<close> tries the start positions one after the other, up
  to the end of the text), stores the end of the match in \<open>lastIndex\<close>, and resets
  \<open>lastIndex\<close> to 0 when it finds nothing. \<open>lastIndex\<close> is the only state of the
  regular expression; it is passed in and handed back.
\<close>

type_synonym matcher = "string \<Rightarrow> nat \<Rightarrow> (nat \<times> string option list) option"

record match =
  index :: nat
  full :: string
  groups :: "string option list"

text \<open>\<open>result.length\<close>: the full match and one entry per group of the pattern.\<close>

definition result_length :: "match \<Rightarrow> nat" where
  "result_length result = Suc (length (groups result))"

text \<open>\<open>result[k]\<close>: the full match for \<open>k = 0\<close>, the capture of group \<open>k\<close> otherwise.\<close>

definition group :: "match \<Rightarrow> nat \<Rightarrow> string option" where
  "group result k = (if k = 0 then Some (full result) else at (groups result) (k - 1))"

function search :: "matcher \<Rightarrow> string \<Rightarrow> nat \<Rightarrow> (nat \<times> nat \<times> string option list) option" where
  "search m text i =
     (if length text < i then None
      else case m text i of
             Some r \<Rightarrow> Some (i, r)
           | None \<Rightarrow> search m text (Suc i))"
  by pat_completeness auto
termination
  by (relation "measure (\<lambda>(m, text, i). Suc (length text) - i)") auto

definition substring :: "string \<Rightarrow> nat \<Rightarrow> nat \<Rightarrow> string" where
  "substring text i e = take (e - i) (drop i text)"

definition exec :: "matcher \<Rightarrow> string \<Rightarrow> nat \<Rightarrow> match option \<times> nat" where
  "exec regExp text lastIndex =
     (case search regExp text lastIndex of
        None \<Rightarrow> (None, 0)
      | Some (i, e, captures) \<Rightarrow>
          (Some \<lparr>index = i, full = substring text i e, groups = captures\<rparr>, e))"

subsection \<open>The constructor's arguments\<close>

text \<open>
  A block of the model: its children are given by their \<open>data\<close> property, a string for
  a text node and \<open>undefined\<close> for any other child.
\<close>

record element =
  name :: string
  children :: "string option list"

record position =
  parent :: element
  offset :: int

record range =
  range_start :: position
  range_end :: position

text \<open>
  The calls the engine makes on the writer of an enqueued change. The attribute key is
  \<open>attributeKey\<close>, which may be \<open>undefined\<close>.
\<close>

datatype writer_call =
    SetAttribute "string option" bool range
  | RemoveSelectionAttribute "string option"
  | Remove range

text \<open>
  The two overloaded arguments of the constructor: a regular expression or a test
  function, and an attribute name or a format function. A format function is given by
  the writer calls it makes on the valid ranges.
\<close>

datatype test_source =
    RegExp matcher
  | TestCallback "string \<Rightarrow> test_output"

datatype format_target =
    Attribute string
  | FormatCallback "range list \<Rightarrow> writer_call list"

text \<open>Lines 79-83: \<open>attributeKey\<close> is set only when the target is a string.\<close>

definition attributeKey :: "format_target \<Rightarrow> string option" where
  "attributeKey attributeOrCallback =
     (case attributeOrCallback of
        Attribute a \<Rightarrow> Some a
      | FormatCallback f \<Rightarrow> None)"

subsection \<open>The default test callback (lines 86-128)\<close>

text \<open>
  The \<open>while\<close> loop over \<open>regExp.exec( text )\<close>. It need not end: a match of the
  empty string leaves \<open>lastIndex\<close> where it was. Reading \<open>.length\<close> of a group that is
  \<open>undefined\<close> raises a TypeError; this happens before anything of that match is
  pushed, whichever of the three groups is missing. \<open>rem\<close> and \<open>fmt\<close> are the
  arrays \<open>remove\<close> and \<open>format\<close>, \<open>index'\<close> is \<open>index\<close> after the adjustment of
  line 106, and the second component of the result is \<open>regExp.lastIndex\<close> when the
  callback is left.
\<close>

partial_function (option) whileExec ::
  "matcher \<Rightarrow> string \<Rightarrow> nat \<Rightarrow> pair list \<Rightarrow> pair list \<Rightarrow> ((error + test_output) \<times> nat) option"
where
  "whileExec regExp text lastIndex rem fmt =
     (case exec regExp text lastIndex of
        (None, lastIndex') \<Rightarrow> Some (Inr \<lparr>remove = rem, format = fmt\<rparr>, lastIndex')
      | (Some result, lastIndex') \<Rightarrow>
          if result_length result < 4 then
            Some (Inr \<lparr>remove = rem, format = fmt\<rparr>, lastIndex')
          else
            (case (group result 1, group result 2, group result 3) of
               (Some leftDel, Some content, Some rightDel) \<Rightarrow>
                 let found = leftDel @ content @ rightDel;
                     index' = int (index result) + (int (length (full result)) - int (length found));
                     delStart = [Some index', Some (index' + int (length leftDel))];
                     delEnd = [Some (index' + int (length leftDel) + int (length content)),
                               Some (index' + int (length leftDel) + int (length content)
                                       + int (length rightDel))]
                 in whileExec regExp text lastIndex'
                      (rem @ [delStart, delEnd])
                      (fmt @ [[Some (index' + int (length leftDel)),
                               Some (index' + int (length leftDel) + int (length content))]])
             | _ \<Rightarrow> Some (Inl TypeError, lastIndex')))"

definition testCallback ::
  "test_source \<Rightarrow> string \<Rightarrow> nat \<Rightarrow> ((error + test_output) \<times> nat) option" where
  "testCallback testRegexpOrCallback text lastIndex =
     (case testRegexpOrCallback of
        TestCallback f \<Rightarrow> Some (Inr (f text), lastIndex)
      | RegExp regExp \<Rightarrow> whileExec regExp text lastIndex [] [])"

subsection \<open>The default format callback (lines 131-139)\<close>

definition formatCallback :: "format_target \<Rightarrow> range list \<Rightarrow> writer_call list" where
  "formatCallback attributeOrCallback validRanges =
     (case attributeOrCallback of
        FormatCallback f \<Rightarrow> f validRanges
      | Attribute a \<Rightarrow>
          map (SetAttribute (attributeKey attributeOrCallback) True) validRanges
            @ [RemoveSelectionAttribute (attributeKey attributeOrCallback)])"

subsection \<open>The host editor as the change listener sees it\<close>

record batch =
  batch_type :: string

text \<open>
  An entry of \<open>differ.getChanges()\<close>. Entries of type \<open>attribute\<close> have neither a
  \<open>name\<close> nor a \<open>length\<close>.
\<close>

record entry =
  entry_type :: string
  entry_name :: "string option"
  entry_length :: "nat option"

record selection =
  isCollapsed :: bool
  focus :: position

record editor =
  selection :: selection
  changes :: "entry list"

text \<open>\<open>schema.getValidRanges( ranges, attribute )\<close> is the host's; it is a parameter.\<close>

type_synonym schema = "range list \<Rightarrow> string option \<Rightarrow> range list"

text \<open>
  What the listener does to the outside, in order: it runs the test callback on a text,
  and it enqueues one change, given by the calls made on its writer.
\<close>

datatype event =
    Tested string
  | EnqueueChange "writer_call list"

subsection \<open>Helpers (lines 187-209)\<close>

text \<open>\<open>a + b.data\<close>: string concatenation turns \<open>undefined\<close> into its name.\<close>

definition plus_data :: "string \<Rightarrow> string option \<Rightarrow> string" where
  "plus_data a b = (case b of Some d \<Rightarrow> a @ d | None \<Rightarrow> a @ ''undefined'')"

definition getText :: "element \<Rightarrow> string" where
  "getText element = foldl plus_data [] (children element)"

text \<open>\<open>s.slice( 0, n )\<close>: a negative end counts from the end of the string.\<close>

definition slice0 :: "string \<Rightarrow> int \<Rightarrow> string" where
  "slice0 s n = (if 0 \<le> n then take (nat n) s else take (length s - nat (- n)) s)"

definition createPositionAt :: "element \<Rightarrow> int \<Rightarrow> position" where
  "createPositionAt block off = \<lparr>parent = block, offset = off\<rparr>"

definition createRange :: "position \<Rightarrow> position \<Rightarrow> range" where
  "createRange s e = \<lparr>range_start = s, range_end = e\<rparr>"

definition testOutputToRanges :: "element \<Rightarrow> pair list \<Rightarrow> range list" where
  "testOutputToRanges block arrays =
     map (\<lambda>array. createRange (createPositionAt block (the (at array 0)))
                               (createPositionAt block (the (at array 1))))
       (filter (\<lambda>array. at array 0 \<noteq> None \<and> at array 1 \<noteq> None) arrays)"

subsection \<open>The change listener (lines 141-183)\<close>

text \<open>
  The listener returns early three times (transparent batch, selection not collapsed,
  not a single typed character), runs the test callback, returns when one of the two
  range lists is empty, and otherwise enqueues one change: the format callback on the
  valid ranges, then the removals in reversed order. An error of the test callback
  leaves the listener at once. The result is \<open>None\<close> when the test callback does not
  return.
\<close>

definition changeHandler ::
  "test_source \<Rightarrow> format_target \<Rightarrow> schema \<Rightarrow> editor \<Rightarrow> batch \<Rightarrow> nat
     \<Rightarrow> ((error + event list) \<times> nat) option" where
  "changeHandler testRegexpOrCallback attributeOrCallback getValidRanges editor batch lastIndex =
     (if batch_type batch = ''transparent'' then Some (Inr [], lastIndex)
      else if \<not> isCollapsed (selection editor) then Some (Inr [], lastIndex)
      else if (case changes editor of
                 [entry] \<Rightarrow> entry_type entry \<noteq> ''insert''
                              \<or> entry_name entry \<noteq> Some ''$text''
                              \<or> entry_length entry \<noteq> Some 1
               | _ \<Rightarrow> True)
           then Some (Inr [], lastIndex)
      else
        let block = parent (focus (selection editor));
            text = slice0 (getText block) (offset (focus (selection editor)))
        in case testCallback testRegexpOrCallback text lastIndex of
             None \<Rightarrow> None
           | Some (Inl err, lastIndex') \<Rightarrow> Some (Inl err, lastIndex')
           | Some (Inr testOutput, lastIndex') \<Rightarrow>
               let rangesToFormat = testOutputToRanges block (format testOutput);
                   rangesToRemove = testOutputToRanges block (remove testOutput)
               in if \<not> (rangesToFormat \<noteq> [] \<and> rangesToRemove \<noteq> []) then
                    Some (Inr [Tested text], lastIndex')
                  else
                    let validRanges = getValidRanges rangesToFormat (attributeKey attributeOrCallback)
                    in Some (Inr [Tested text,
                                  EnqueueChange (formatCallback attributeOrCallback validRanges
                                                   @ map Remove (rev rangesToRemove))],
                             lastIndex'))"

declare search.simps [simp del]

subsection \<open>Patterns used as examples\<close>

text \<open>
  The matchers of three patterns. \<open>/(\*)(.+?)(\*)/g\<close> and \<open>/(\*)(.+?)\*/g\<close> are the
  patterns of the repository's tests (tests/inlineautoformatediting.js); the second has
  two groups only. At a start position both need an asterisk, then one character that
  is not a line terminator, then the shortest run of such characters that an asterisk
  follows. \<open>/(\*)(a)?(\*)/g\<close> has three groups, the second of them optional.
\<close>

definition lineTerminator :: "char \<Rightarrow> bool" where
  "lineTerminator c = (c = CHR 0x0A \<or> c = CHR 0x0D)"

definition lazy_between_stars :: "string \<Rightarrow> nat \<Rightarrow> (nat \<times> string) option" where
  "lazy_between_stars text i =
     (case drop i text of
        c0 # c # rest \<Rightarrow>
          if c0 \<noteq> CHR ''*'' \<or> lineTerminator c then None
          else
            let more = takeWhile (\<lambda>x. x \<noteq> CHR ''*'' \<and> \<not> lineTerminator x) rest
            in (case drop (length more) rest of
                  c1 # _ \<Rightarrow> if c1 = CHR ''*'' then Some (i + length more + 3, c # more) else None
                | [] \<Rightarrow> None)
      | _ \<Rightarrow> None)"

definition star_lazy_star :: matcher where
  "star_lazy_star text i =
     (case lazy_between_stars text i of
        Some (e, content) \<Rightarrow> Some (e, [Some ''*'', Some content, Some ''*''])
      | None \<Rightarrow> None)"

definition star_lazy_star_two_groups :: matcher where
  "star_lazy_star_two_groups text i =
     (case lazy_between_stars text i of
        Some (e, content) \<Rightarrow> Some (e, [Some ''*'', Some content])
      | None \<Rightarrow> None)"

definition star_optional_a_star :: matcher where
  "star_optional_a_star text i =
     (case drop i text of
        c0 # c1 # rest \<Rightarrow>
          if c0 \<noteq> CHR ''*'' then None
          else if c1 = CHR ''a'' \<and> (case rest of c2 # _ \<Rightarrow> c2 = CHR ''*'' | [] \<Rightarrow> False)
            then Some (i + 3, [Some ''*'', Some ''a'', Some ''*''])
          else if c1 = CHR ''*'' then Some (i + 2, [Some ''*'', None, Some ''*''])
          else None
      | _ \<Rightarrow> None)"

subsection \<open>The notions of the specification\<close>

text \<open>
  The change filter in the words of the specification (section 4.1): the change set holds
  exactly one entry, the insertion of a text node of length 1; the batch is not
  transparent and the selection is collapsed.
\<close>

definition typedCharacter :: "entry list \<Rightarrow> bool" where
  "typedCharacter cs =
     (case cs of
        [entry] \<Rightarrow> entry_type entry = ''insert'' \<and> entry_name entry = Some ''$text''
                     \<and> entry_length entry = Some 1
      | _ \<Rightarrow> False)"

definition qualifying :: "editor \<Rightarrow> batch \<Rightarrow> bool" where
  "qualifying editor batch =
     (batch_type batch \<noteq> ''transparent'' \<and> isCollapsed (selection editor)
        \<and> typedCharacter (changes editor))"

text \<open>The block of the caret and its text up to the caret (lines 161-162).\<close>

abbreviation caretBlock :: "editor \<Rightarrow> element" where
  "caretBlock editor \<equiv> parent (focus (selection editor))"

abbreviation leadingText :: "editor \<Rightarrow> string" where
  "leadingText editor \<equiv> slice0 (getText (caretBlock editor)) (offset (focus (selection editor)))"

text \<open>
  The engine changes the document through enqueued changes only. Given the host's
  meaning of a writer call, \<open>runEvents\<close> replays what a listener did on the pair of the
  document and the number of batches applied to it.
\<close>

fun runEvents :: "('d \<Rightarrow> writer_call \<Rightarrow> 'd) \<Rightarrow> event list \<Rightarrow> 'd \<times> nat \<Rightarrow> 'd \<times> nat" where
  "runEvents write [] model = model"
| "runEvents write (Tested text # evs) model = runEvents write evs model"
| "runEvents write (EnqueueChange calls # evs) (document, batches) =
     runEvents write evs (foldl write document calls, Suc batches)"

subsection \<open>Example editors\<close>

text \<open>
  The editor of the repository's tests after a character was typed at the end of a
  paragraph: \<open>typed text\<close> is \<open><paragraph>text[]</paragraph>\<close> with the one change
  entry of the typed character.
\<close>

definition paragraphElement :: "string \<Rightarrow> element" where
  "paragraphElement text = \<lparr>name = ''paragraph'', children = [Some text]\<rparr>"

definition typed :: "string \<Rightarrow> editor" where
  "typed text =
     \<lparr>selection = \<lparr>isCollapsed = True,
                    focus = \<lparr>parent = paragraphElement text, offset = int (length text)\<rparr>\<rparr>,
      changes = [\<lparr>entry_type = ''insert'', entry_name = Some ''$text'', entry_length = Some 1\<rparr>]\<rparr>"

definition inBlock :: "string \<Rightarrow> int \<Rightarrow> int \<Rightarrow> range" where
  "inBlock text a b =
     \<lparr>range_start = \<lparr>parent = paragraphElement text, offset = a\<rparr>,
      range_end = \<lparr>parent = paragraphElement text, offset = b\<rparr>\<rparr>"

subsection \<open>The order of the removals\<close>

text \<open>
  The ranges a change removes, in the order of its \<open>writer.remove\<close> calls, and what it
  means for a list of ranges to ascend or descend by start offset.
\<close>

definition startOffset :: "range \<Rightarrow> int" where
  "startOffset r = offset (range_start r)"

definition ascendingByStart :: "range list \<Rightarrow> bool" where
  "ascendingByStart rs = sorted_wrt (\<lambda>r s. startOffset r \<le> startOffset s) rs"

definition descendingByStart :: "range list \<Rightarrow> bool" where
  "descendingByStart rs = sorted_wrt (\<lambda>r s. startOffset s \<le> startOffset r) rs"

fun removed :: "writer_call list \<Rightarrow> range list" where
  "removed [] = []"
| "removed (Remove r # calls) = r # removed calls"
| "removed (SetAttribute key v r # calls) = removed calls"
| "removed (RemoveSelectionAttribute key # calls) = removed calls"

subsection \<open>The default test function in the words of the specification\<close>

text \<open>
  The successive matches of the global regular expression on a text, from a start value
  of \<open>lastIndex\<close> until \<open>exec\<close> finds nothing more. For one match in which the groups
  1, 2 and 3 are present (section 4.2): the true start is the raw index plus the length
  of the full match minus the length of the three groups together; the two remove pairs
  span the groups 1 and 3, the format pair spans group 2.
\<close>

inductive successive :: "matcher \<Rightarrow> string \<Rightarrow> nat \<Rightarrow> match list \<Rightarrow> bool" where
  exhausted: "exec regExp text i = (None, j) \<Longrightarrow> successive regExp text i []"
| matched: "exec regExp text i = (Some m, j) \<Longrightarrow> successive regExp text j ms
     \<Longrightarrow> successive regExp text i (m # ms)"

definition threeGroups :: "match \<Rightarrow> bool" where
  "threeGroups m = (group m 1 \<noteq> None \<and> group m 2 \<noteq> None \<and> group m 3 \<noteq> None)"

definition len :: "match \<Rightarrow> nat \<Rightarrow> int" where
  "len m k = (case group m k of Some s \<Rightarrow> int (length s) | None \<Rightarrow> 0)"

definition spec_start :: "match \<Rightarrow> int" where
  "spec_start m = int (index m) + (int (length (full m)) - (len m 1 + len m 2 + len m 3))"

definition spec_remove :: "match \<Rightarrow> pair list" where
  "spec_remove m =
     [[Some (spec_start m), Some (spec_start m + len m 1)],
      [Some (spec_start m + len m 1 + len m 2),
       Some (spec_start m + len m 1 + len m 2 + len m 3)]]"

definition spec_format :: "match \<Rightarrow> pair" where
  "spec_format m = [Some (spec_start m + len m 1), Some (spec_start m + len m 1 + len m 2)]"

text \<open>
  The shared regular expression keeps \<open>lastIndex\<close> between two runs of the default
  test callback: \<open>invocations\<close> runs the callback on one text after the other and
  collects what each run gave (a result, an error, or \<open>None\<close> for a run that does
  not return, after which nothing runs).
\<close>

fun invocations :: "test_source \<Rightarrow> nat \<Rightarrow> string list \<Rightarrow> (error + test_output) option list" where
  "invocations src lastIndex [] = []"
| "invocations src lastIndex (text # texts) =
     (case testCallback src text lastIndex of
        None \<Rightarrow> [None]
      | Some (r, lastIndex') \<Rightarrow> Some r # invocations src lastIndex' texts)"

subsection \<open>Assumptions on a pattern\<close>

text \<open>
  A pattern is progressing when none of its matches is empty, and participating when the
  groups 1, 2 and 3 take part in every match.
\<close>

definition progressing :: "matcher \<Rightarrow> bool" where
  "progressing regExp = (\<forall>text i e captures. regExp text i = Some (e, captures) \<longrightarrow> i < e)"

definition participating :: "matcher \<Rightarrow> bool" where
  "participating regExp =
     (\<forall>text i e captures. regExp text i = Some (e, captures) \<longrightarrow>
        (\<exists>leftDel content rightDel more.
           captures = Some leftDel # Some content # Some rightDel # more))"

text \<open>The matcher of \<open>/()()()/g\<close>: it matches the empty string at every position.\<close>

definition empty_groups :: matcher where
  "empty_groups text i = Some (i, [Some [], Some [], Some []])"

section \<open>Properties\<close>

subsection \<open>The two ways through the listener\<close>

lemma handler_ignored:
  "\<not> qualifying editor batch \<Longrightarrow>
     changeHandler src target getValidRanges editor batch lastIndex = Some (Inr [], lastIndex)"
  by (auto simp: qualifying_def typedCharacter_def changeHandler_def split: list.splits)

lemma handler_qualifying:
  assumes "qualifying editor batch"
  shows "changeHandler src target getValidRanges editor batch lastIndex =
     (case testCallback src (leadingText editor) lastIndex of
        None \<Rightarrow> None
      | Some (Inl err, lastIndex') \<Rightarrow> Some (Inl err, lastIndex')
      | Some (Inr testOutput, lastIndex') \<Rightarrow>
          if testOutputToRanges (caretBlock editor) (format testOutput) = []
             \<or> testOutputToRanges (caretBlock editor) (remove testOutput) = []
          then Some (Inr [Tested (leadingText editor)], lastIndex')
          else Some (Inr [Tested (leadingText editor),
                  EnqueueChange
                    (formatCallback target
                       (getValidRanges (testOutputToRanges (caretBlock editor) (format testOutput))
                          (attributeKey target))
                     @ map Remove (rev (testOutputToRanges (caretBlock editor) (remove testOutput))))],
                lastIndex'))"
  using assms
  by (auto simp: qualifying_def typedCharacter_def changeHandler_def Let_def
           split: list.splits option.splits sum.splits prod.splits)

subsection \<open>The example editors and patterns\<close>

lemma typed_qualifying: "qualifying (typed text) \<lparr>batch_type = ''default''\<rparr>"
  by (simp add: qualifying_def typed_def typedCharacter_def)

lemma typed_leadingText: "leadingText (typed text) = text"
  by (simp add: typed_def paragraphElement_def getText_def plus_data_def slice0_def)

lemma typed_caretBlock: "caretBlock (typed text) = paragraphElement text"
  by (simp add: typed_def)

lemma typed_scanned:
  "slice0 (getText (paragraphElement text)) (offset (focus (selection (typed text)))) = text"
  using typed_leadingText [of "text"] by (simp add: typed_caretBlock)

lemmas typed_simps = typed_qualifying typed_leadingText typed_caretBlock typed_scanned

lemmas ranges_simps = inBlock_def testOutputToRanges_def at_def createRange_def createPositionAt_def

lemmas pattern_simps = exec_def search.simps star_lazy_star_def star_lazy_star_two_groups_def
  lazy_between_stars_def lineTerminator_def substring_def star_optional_a_star_def
  result_length_def group_def at_def

lemma foobar_test:
  "testCallback (RegExp star_lazy_star) ''*foobar*'' 0 =
     Some (Inr \<lparr>remove = [[Some 0, Some 1], [Some 7, Some 8]], format = [[Some 1, Some 7]]\<rparr>, 0)"
  by (simp add: testCallback_def whileExec.simps pattern_simps)

lemma two_matches:
  "successive star_lazy_star ''a *b* c **d* e'' 0
     [\<lparr>index = 2, full = ''*b*'', groups = [Some ''*'', Some ''b'', Some ''*'']\<rparr>,
      \<lparr>index = 8, full = ''**d*'', groups = [Some ''*'', Some ''*d'', Some ''*'']\<rparr>]"
  by (rule matched [where j = 5], simp add: pattern_simps, rule matched [where j = 12], simp add: pattern_simps,
      rule exhausted [where j = 0], simp add: pattern_simps)

lemma progressing_star_lazy_star: "progressing star_lazy_star"
  by (auto simp: progressing_def star_lazy_star_def lazy_between_stars_def Let_def
           split: option.splits list.splits if_splits)

lemma participating_star_lazy_star: "participating star_lazy_star"
  by (auto simp: participating_def star_lazy_star_def split: option.splits)

subsection \<open>The host's exec\<close>

lemma exec_None: "exec regExp text i = (None, j) \<Longrightarrow> j = 0"
  by (auto simp: exec_def split: option.splits prod.splits)

lemma search_Some:
  "search m t i = Some (i', r) \<Longrightarrow> i \<le> i' \<and> i' \<le> length t \<and> m t i' = Some r"
proof (induction m t i rule: search.induct)
  case (1 m t i)
  show ?case
  proof (cases "m t i")
    case None
    with "1.prems" have "\<not> length t < i" and "search m t (Suc i) = Some (i', r)"
      by (auto simp: search.simps [of m t i] split: if_splits)
    with "1.IH" None show ?thesis by auto
  next
    case (Some a)
    with "1.prems" show ?thesis
      by (auto simp: search.simps [of m t i] split: if_splits)
  qed
qed

lemma exec_Some:
  assumes "exec regExp text i = (Some m, j)"
  shows "i \<le> index m \<and> index m \<le> length text \<and> regExp text (index m) = Some (j, groups m)"
proof -
  from assms obtain i' where s: "search regExp text i = Some (i', j, groups m)" and "index m = i'"
    by (auto simp: exec_def split: option.splits prod.splits)
  with search_Some [OF s] show ?thesis by simp
qed

lemma exec_progress:
  assumes "progressing regExp" and "exec regExp text i = (Some m, j)"
  shows "Suc (length text) - j < Suc (length text) - i"
proof -
  from exec_Some [OF assms(2)] assms(1) have "index m < j" and "i \<le> index m" and "index m \<le> length text"
    by (auto simp: progressing_def)
  then show ?thesis by linarith
qed

lemma exec_empty_groups:
  "k \<le> length text \<Longrightarrow> exec empty_groups text k =
     (Some \<lparr>index = k, full = [], groups = [Some [], Some [], Some []]\<rparr>, k)"
  by (simp add: exec_def search.simps empty_groups_def substring_def)

subsection \<open>One pass of the loop\<close>

lemma threeGroups_length: "threeGroups m \<Longrightarrow> \<not> result_length m < 4"
  by (auto simp: threeGroups_def group_def at_def result_length_def split: if_splits)

lemma whileExec_exhausted:
  "exec regExp text i = (None, j) \<Longrightarrow>
     whileExec regExp text i rem fmt = Some (Inr \<lparr>remove = rem, format = fmt\<rparr>, 0)"
  by (subst whileExec.simps) (simp add: exec_None)

lemma whileExec_break:
  "exec regExp text i = (Some m, j) \<Longrightarrow> result_length m < 4 \<Longrightarrow>
     whileExec regExp text i rem fmt = Some (Inr \<lparr>remove = rem, format = fmt\<rparr>, j)"
  by (subst whileExec.simps) simp

lemma whileExec_push:
  assumes "exec regExp text i = (Some m, j)" and "threeGroups m"
  shows "whileExec regExp text i rem fmt =
           whileExec regExp text j (rem @ spec_remove m) (fmt @ [spec_format m])"
proof -
  from assms(2) obtain leftDel content rightDel
    where g: "group m 1 = Some leftDel" "group m 2 = Some content" "group m 3 = Some rightDel"
    by (auto simp: threeGroups_def)
  from g assms(1) threeGroups_length [OF assms(2)] show ?thesis
    by (subst whileExec.simps)
       (simp add: Let_def spec_remove_def spec_format_def spec_start_def len_def add.assoc)
qed

lemma whileExec_TypeError:
  assumes "exec regExp text i = (Some m, j)" and "4 \<le> result_length m" and "\<not> threeGroups m"
  shows "whileExec regExp text i rem fmt = Some (Inl TypeError, j)"
proof -
  from assms(2) have l: "\<not> result_length m < 4" by simp
  from assms(3) show ?thesis
    by (subst whileExec.simps)
       (auto simp: assms(1) l threeGroups_def split: option.splits)
qed

subsection \<open>The whole loop\<close>

lemma whileExec_successive:
  assumes "successive regExp text i ms" and "\<forall>m \<in> set ms. threeGroups m"
  shows "whileExec regExp text i rem fmt =
           Some (Inr \<lparr>remove = rem @ concat (map spec_remove ms),
                       format = fmt @ map spec_format ms\<rparr>, 0)"
  using assms
proof (induction arbitrary: rem fmt rule: successive.induct)
  case (exhausted regExp _ i j)
  then show ?case by (simp add: whileExec_exhausted)
next
  case (matched regExp _ i m j ms)
  then show ?case by (simp add: whileExec_push)
qed

lemma whileExec_returns:
  assumes "progressing regExp"
  shows "\<exists>r. whileExec regExp text i rem fmt = Some r"
proof (induction "Suc (length text) - i" arbitrary: i rem fmt rule: less_induct)
  case less
  obtain r j where e: "exec regExp text i = (r, j)" by (cases "exec regExp text i")
  show ?case
  proof (cases r)
    case None
    with e show ?thesis by (simp add: whileExec_exhausted)
  next
    case (Some m)
    show ?thesis
    proof (cases "result_length m < 4")
      case True
      with e Some show ?thesis by (simp add: whileExec_break)
    next
      case long: False
      show ?thesis
      proof (cases "threeGroups m")
        case True
        with e Some have "whileExec regExp text i rem fmt =
            whileExec regExp text j (rem @ spec_remove m) (fmt @ [spec_format m])"
          by (simp add: whileExec_push)
        moreover from e Some have "Suc (length text) - j < Suc (length text) - i"
          by (simp add: exec_progress [OF assms])
        ultimately show ?thesis using less [of j] by simp
      next
        case False
        with e Some long show ?thesis by (simp add: whileExec_TypeError)
      qed
    qed
  qed
qed

lemma successive_exists:
  assumes "progressing regExp"
  shows "\<exists>ms. successive regExp text i ms"
proof (induction "Suc (length text) - i" arbitrary: i rule: less_induct)
  case less
  obtain r j where e: "exec regExp text i = (r, j)" by (cases "exec regExp text i")
  show ?case
  proof (cases r)
    case None
    with e show ?thesis by (auto intro: exhausted)
  next
    case (Some m)
    with e have "Suc (length text) - j < Suc (length text) - i"
      by (simp add: exec_progress [OF assms])
    then obtain ms where "successive regExp text j ms" using less [of j] by auto
    with e Some show ?thesis by (auto intro: matched)
  qed
qed

lemma successive_matches:
  "successive regExp text i ms \<Longrightarrow> m \<in> set ms \<Longrightarrow> \<exists>k j. exec regExp text k = (Some m, j)"
  by (induction rule: successive.induct) auto

lemma participating_threeGroups:
  assumes "participating regExp" and "exec regExp text i = (Some m, j)"
  shows "threeGroups m"
proof -
  from exec_Some [OF assms(2)] have "regExp text (index m) = Some (j, groups m)" by simp
  with assms(1) obtain leftDel content rightDel more
    where "groups m = Some leftDel # Some content # Some rightDel # more"
    unfolding participating_def by blast
  then show ?thesis by (simp add: threeGroups_def group_def at_def)
qed

lemma testCallback_stateless:
  assumes "progressing regExp" and "participating regExp"
  shows "\<exists>out. testCallback (RegExp regExp) text i = Some (Inr out, 0)"
proof -
  from successive_exists [OF assms(1)] obtain ms where ms: "successive regExp text i ms" by blast
  have "\<forall>m \<in> set ms. threeGroups m"
    using successive_matches [OF ms] participating_threeGroups [OF assms(2)] by blast
  from whileExec_successive [OF ms this, of "[]" "[]"] show ?thesis
    by (simp add: testCallback_def)
qed

lemma whileExec_never_aux:
  assumes "whileExec regExp text i rem fmt = Some y"
  shows "regExp = empty_groups \<longrightarrow> i \<le> length text \<longrightarrow> False"
proof (rule whileExec.raw_induct
         [where P = "\<lambda>regExp text i rem fmt y. regExp = empty_groups \<longrightarrow> i \<le> length text \<longrightarrow> False",
          OF _ assms], goal_cases)
  case (1 f regExp t i rem fmt y)
  show ?case
  proof (intro impI)
    assume r: "regExp = empty_groups" and i: "i \<le> length t"
    then have e: "exec regExp t i =
        (Some \<lparr>index = i, full = [], groups = [Some [], Some [], Some []]\<rparr>, i)"
      by (simp add: exec_empty_groups)
    from 1(2) obtain r' f' where "f regExp t i r' f' = Some y"
      by (simp add: e result_length_def group_def at_def Let_def)
    with 1(1) r i show False by blast
  qed
qed

lemma whileExec_never:
  "i \<le> length text \<Longrightarrow> whileExec empty_groups text i rem fmt = None"
  using whileExec_never_aux [of empty_groups "text" i rem fmt]
  by (cases "whileExec empty_groups text i rem fmt") auto

subsection \<open>The removals of a change\<close>

lemma removed_append: "removed (xs @ ys) = removed xs @ removed ys"
  by (induction xs rule: removed.induct) simp_all

lemma removed_map_Remove: "removed (map Remove rs) = rs"
  by (induction rs) simp_all

lemma descending_rev_iff: "descendingByStart (rev rs) = ascendingByStart rs"
  by (simp add: ascendingByStart_def descendingByStart_def sorted_wrt_rev)

subsection \<open>The claims\<close>

text \<open>
  C1. When the successive matches of the regular expression on the scanned text are
  \<open>ms\<close> and the groups 1, 2 and 3 are present in each of them, the default test
  callback returns, and its result holds for every match, in the order of the matches,
  the two remove pairs of the groups 1 and 3 and the format pair of group 2, all counted
  from the true start index of the match.
\<close>

theorem default_test_accumulates:
  assumes "successive regExp text lastIndex ms" and "\<forall>m \<in> set ms. threeGroups m"
  shows "testCallback (RegExp regExp) text lastIndex =
           Some (Inr \<lparr>remove = concat (map spec_remove ms), format = map spec_format ms\<rparr>, 0)"
  using whileExec_successive [OF assms, of "[]" "[]"] by (simp add: testCallback_def)

theorem default_test_accumulates_witness:
  "testCallback (RegExp star_lazy_star) ''a *b* c **d* e'' 0 =
     Some (Inr \<lparr>remove = [[Some 2, Some 3], [Some 4, Some 5], [Some 8, Some 9], [Some 11, Some 12]],
                 format = [[Some 3, Some 4], [Some 9, Some 11]]\<rparr>, 0)"
  using default_test_accumulates [OF two_matches]
  by (simp add: threeGroups_def group_def at_def spec_remove_def spec_format_def spec_start_def
        len_def)

text \<open>
  C2. When the batch is transparent, or the selection is not collapsed, or the change set
  is not exactly one inserted text character, the listener returns at once: the test
  callback is not run (so \<open>lastIndex\<close> is untouched) and nothing is enqueued. Hence a
  listener that did anything, or that raised, was given a qualifying event.
\<close>

theorem change_filter:
  "(\<not> qualifying editor batch \<longrightarrow>
      changeHandler src target getValidRanges editor batch lastIndex = Some (Inr [], lastIndex))
   \<and> (\<forall>evs lastIndex'.
        changeHandler src target getValidRanges editor batch lastIndex = Some (Inr evs, lastIndex')
          \<and> evs \<noteq> [] \<longrightarrow> qualifying editor batch)
   \<and> (\<forall>err lastIndex'.
        changeHandler src target getValidRanges editor batch lastIndex = Some (Inl err, lastIndex')
          \<longrightarrow> qualifying editor batch)"
proof (cases "qualifying editor batch")
  case True
  then show ?thesis by simp
next
  case False
  then show ?thesis
    by (simp add: handler_ignored [of editor batch src target getValidRanges lastIndex])
qed

theorem change_filter_witness:
  "changeHandler (RegExp star_lazy_star) (Attribute ''testAttribute'') (\<lambda>ranges key. ranges)
      (typed ''*foobar*'') \<lparr>batch_type = ''transparent''\<rparr> 0 = Some (Inr [], 0)
   \<and> changeHandler (RegExp star_lazy_star) (Attribute ''testAttribute'') (\<lambda>ranges key. ranges)
      ((typed ''*foobar*'')\<lparr>selection := (selection (typed ''*foobar*''))\<lparr>isCollapsed := False\<rparr>\<rparr>)
      \<lparr>batch_type = ''default''\<rparr> 0 = Some (Inr [], 0)
   \<and> changeHandler (RegExp star_lazy_star) (Attribute ''testAttribute'') (\<lambda>ranges key. ranges)
      ((typed ''*foobar*'')\<lparr>changes := [\<lparr>entry_type = ''remove'', entry_name = Some ''$text'',
                                          entry_length = Some 1\<rparr>]\<rparr>)
      \<lparr>batch_type = ''default''\<rparr> 0 = Some (Inr [], 0)
   \<and> changeHandler (RegExp star_lazy_star) (Attribute ''testAttribute'') (\<lambda>ranges key. ranges)
      ((typed ''*foobar*'')\<lparr>changes := [\<lparr>entry_type = ''insert'', entry_name = Some ''$text'',
                                          entry_length = Some 2\<rparr>]\<rparr>)
      \<lparr>batch_type = ''default''\<rparr> 0 = Some (Inr [], 0)"
  using change_filter [of "typed ''*foobar*''" "\<lparr>batch_type = ''transparent''\<rparr>"
      "RegExp star_lazy_star" "Attribute ''testAttribute''" "\<lambda>ranges key. ranges" 0]
    change_filter [of
      "(typed ''*foobar*'')\<lparr>selection := (selection (typed ''*foobar*''))\<lparr>isCollapsed := False\<rparr>\<rparr>"
      "\<lparr>batch_type = ''default''\<rparr>"
      "RegExp star_lazy_star" "Attribute ''testAttribute''" "\<lambda>ranges key. ranges" 0]
    change_filter [of
      "(typed ''*foobar*'')\<lparr>changes := [\<lparr>entry_type = ''remove'', entry_name = Some ''$text'',
                                          entry_length = Some 1\<rparr>]\<rparr>"
      "\<lparr>batch_type = ''default''\<rparr>"
      "RegExp star_lazy_star" "Attribute ''testAttribute''" "\<lambda>ranges key. ranges" 0]
    change_filter [of
      "(typed ''*foobar*'')\<lparr>changes := [\<lparr>entry_type = ''insert'', entry_name = Some ''$text'',
                                          entry_length = Some 2\<rparr>]\<rparr>"
      "\<lparr>batch_type = ''default''\<rparr>"
      "RegExp star_lazy_star" "Attribute ''testAttribute''" "\<lambda>ranges key. ranges" 0]
  by (simp add: qualifying_def typed_def typedCharacter_def)

text \<open>
  C3. On a qualifying event, when the format range list or the remove range list is empty
  after the conversion of the test output, the listener stops after the test: it enqueues
  no change, so neither the format callback nor any removal runs.
\<close>

theorem empty_ranges_abort:
  assumes "qualifying editor batch"
    and "testCallback src (leadingText editor) lastIndex = Some (Inr testOutput, lastIndex')"
    and "testOutputToRanges (caretBlock editor) (format testOutput) = []
         \<or> testOutputToRanges (caretBlock editor) (remove testOutput) = []"
  shows "changeHandler src target getValidRanges editor batch lastIndex
           = Some (Inr [Tested (leadingText editor)], lastIndex')"
  using assms(2,3) by (simp add: handler_qualifying [OF assms(1)])

theorem empty_ranges_abort_witness:
  "changeHandler (TestCallback (\<lambda>text. \<lparr>remove = [[Some 0, Some 1]], format = [[]]\<rparr>))
      (FormatCallback (\<lambda>validRanges. [Remove (inBlock ''* '' 0 2)])) (\<lambda>ranges key. ranges)
      (typed ''* '') \<lparr>batch_type = ''default''\<rparr> 0
     = Some (Inr [Tested ''* ''], 0)"
  using empty_ranges_abort [of "typed ''* ''" "\<lparr>batch_type = ''default''\<rparr>"
      "TestCallback (\<lambda>text. \<lparr>remove = [[Some 0, Some 1]], format = [[]]\<rparr>)" 0
      "\<lparr>remove = [[Some 0, Some 1]], format = [[]]\<rparr>" 0
      "FormatCallback (\<lambda>validRanges. [Remove (inBlock ''* '' 0 2)])" "\<lambda>ranges key. ranges"]
  by (simp add: typed_qualifying typed_leadingText testCallback_def testOutputToRanges_def at_def)

text \<open>
  C4. What the code does where the claim wants the removals in descending order of start
  offset for every order of the test function's \<open>remove\<close> array: the listener reverses
  the array (line 179) and removes the ranges in that reversed order, after the calls of
  the format callback. The removals descend by start offset exactly when the array
  ascends. The witness is the failing input: a test function that lists \<open>[5, 6]\<close>
  before \<open>[0, 1]\<close> has \<open>[0, 1]\<close> removed first, so the first removal shifts the
  offsets of the range still to be removed, which the comment on line 178 says the
  reversal is there to prevent.
\<close>

theorem removals_reversed:
  assumes "qualifying editor batch"
    and "testCallback src (leadingText editor) lastIndex = Some (Inr testOutput, lastIndex')"
    and "rangesToFormat = testOutputToRanges (caretBlock editor) (format testOutput)"
    and "rangesToRemove = testOutputToRanges (caretBlock editor) (remove testOutput)"
    and "rangesToFormat \<noteq> []" and "rangesToRemove \<noteq> []"
    and "formatCalls = formatCallback target (getValidRanges rangesToFormat (attributeKey target))"
  shows "changeHandler src target getValidRanges editor batch lastIndex
        = Some (Inr [Tested (leadingText editor),
                     EnqueueChange (formatCalls @ map Remove (rev rangesToRemove))],
                lastIndex')
    \<and> removed (formatCalls @ map Remove (rev rangesToRemove))
        = removed formatCalls @ rev rangesToRemove
    \<and> descendingByStart (rev rangesToRemove) = ascendingByStart rangesToRemove"
  using assms(2-7)
  by (simp add: handler_qualifying [OF assms(1)] removed_append removed_map_Remove
        descending_rev_iff)

theorem removals_reversed_witness:
  "changeHandler
      (TestCallback (\<lambda>text. \<lparr>remove = [[Some 5, Some 6], [Some 0, Some 1]],
                              format = [[Some 1, Some 5]]\<rparr>))
      (Attribute ''bold'') (\<lambda>ranges key. ranges)
      (typed ''*bold*'') \<lparr>batch_type = ''default''\<rparr> 0
     = Some (Inr [Tested ''*bold*'',
                  EnqueueChange [SetAttribute (Some ''bold'') True (inBlock ''*bold*'' 1 5),
                                 RemoveSelectionAttribute (Some ''bold''),
                                 Remove (inBlock ''*bold*'' 0 1),
                                 Remove (inBlock ''*bold*'' 5 6)]], 0)
   \<and> removed [SetAttribute (Some ''bold'') True (inBlock ''*bold*'' 1 5),
               RemoveSelectionAttribute (Some ''bold''),
               Remove (inBlock ''*bold*'' 0 1),
               Remove (inBlock ''*bold*'' 5 6)]
       = [inBlock ''*bold*'' 0 1, inBlock ''*bold*'' 5 6]
   \<and> \<not> descendingByStart [inBlock ''*bold*'' 0 1, inBlock ''*bold*'' 5 6]"
  using removals_reversed [where editor = "typed ''*bold*''"
      and batch = "\<lparr>batch_type = ''default''\<rparr>"
      and src = "TestCallback (\<lambda>text. \<lparr>remove = [[Some 5, Some 6], [Some 0, Some 1]],
                                           format = [[Some 1, Some 5]]\<rparr>)"
      and lastIndex = 0 and lastIndex' = 0
      and testOutput = "\<lparr>remove = [[Some 5, Some 6], [Some 0, Some 1]], format = [[Some 1, Some 5]]\<rparr>"
      and rangesToFormat = "[inBlock ''*bold*'' 1 5]"
      and rangesToRemove = "[inBlock ''*bold*'' 5 6, inBlock ''*bold*'' 0 1]"
      and formatCalls = "[SetAttribute (Some ''bold'') True (inBlock ''*bold*'' 1 5),
                          RemoveSelectionAttribute (Some ''bold'')]"
      and target = "Attribute ''bold''" and getValidRanges = "\<lambda>ranges key. ranges"]
  by (simp add: typed_simps testCallback_def ranges_simps
        formatCallback_def attributeKey_def ascendingByStart_def startOffset_def)

text \<open>
  C5. What the code does where the claim wants the operation aborted: when the schema
  narrows the format ranges to no valid range, the change is enqueued all the same, the
  format callback gets the empty list and every remove range is removed. The witness is
  the failing input: \<open>*foobar*\<close> typed where \<open>bold\<close> is allowed nowhere loses its
  two asterisks and gets no attribute.
\<close>

theorem removal_without_valid_ranges:
  assumes "qualifying editor batch"
    and "testCallback src (leadingText editor) lastIndex = Some (Inr testOutput, lastIndex')"
    and "rangesToFormat = testOutputToRanges (caretBlock editor) (format testOutput)"
    and "rangesToRemove = testOutputToRanges (caretBlock editor) (remove testOutput)"
    and "rangesToFormat \<noteq> []" and "rangesToRemove \<noteq> []"
    and "getValidRanges rangesToFormat (attributeKey target) = []"
  shows "changeHandler src target getValidRanges editor batch lastIndex
        = Some (Inr [Tested (leadingText editor),
                     EnqueueChange (formatCallback target [] @ map Remove (rev rangesToRemove))],
                lastIndex')"
  using assms(2-7) by (simp add: handler_qualifying [OF assms(1)])

theorem removal_without_valid_ranges_witness:
  "changeHandler (RegExp star_lazy_star) (Attribute ''bold'') (\<lambda>ranges key. [])
      (typed ''*foobar*'') \<lparr>batch_type = ''default''\<rparr> 0
     = Some (Inr [Tested ''*foobar*'',
                  EnqueueChange [RemoveSelectionAttribute (Some ''bold''),
                                 Remove (inBlock ''*foobar*'' 7 8),
                                 Remove (inBlock ''*foobar*'' 0 1)]], 0)"
  using removal_without_valid_ranges [where editor = "typed ''*foobar*''"
      and batch = "\<lparr>batch_type = ''default''\<rparr>" and src = "RegExp star_lazy_star"
      and lastIndex = 0 and lastIndex' = 0
      and testOutput = "\<lparr>remove = [[Some 0, Some 1], [Some 7, Some 8]], format = [[Some 1, Some 7]]\<rparr>"
      and rangesToFormat = "[inBlock ''*foobar*'' 1 7]"
      and rangesToRemove = "[inBlock ''*foobar*'' 0 1, inBlock ''*foobar*'' 7 8]"
      and target = "Attribute ''bold''" and getValidRanges = "\<lambda>ranges key. []"]
  by (simp add: typed_simps foobar_test ranges_simps formatCallback_def attributeKey_def)

text \<open>
  C6. What the code does where the claim wants a silent stop: for a match of a pattern
  with three groups or more in which group 1, 2 or 3 took no part, the loop raises a
  TypeError, whatever was collected before, and leaves \<open>lastIndex\<close> at the end of
  that match; the error leaves the listener. The witness is the failing input, the
  pattern \<open>/(\*)(a)?(\*)/g\<close> on the text \<open>**\<close>.
\<close>

theorem missing_group_raises:
  assumes "exec regExp text lastIndex = (Some m, j)"
    and "4 \<le> result_length m" and "\<not> threeGroups m"
  shows "whileExec regExp text lastIndex rem fmt = Some (Inl TypeError, j)
    \<and> testCallback (RegExp regExp) text lastIndex = Some (Inl TypeError, j)
    \<and> (qualifying editor batch \<and> leadingText editor = text \<longrightarrow>
         changeHandler (RegExp regExp) target getValidRanges editor batch lastIndex
           = Some (Inl TypeError, j))"
  using whileExec_TypeError [OF assms]
  by (auto simp: testCallback_def handler_qualifying)

theorem missing_group_raises_witness:
  "testCallback (RegExp star_optional_a_star) ''**'' 0 = Some (Inl TypeError, 2)
   \<and> changeHandler (RegExp star_optional_a_star) (Attribute ''bold'') (\<lambda>ranges key. ranges)
        (typed ''**'') \<lparr>batch_type = ''default''\<rparr> 0 = Some (Inl TypeError, 2)"
  using missing_group_raises [where regExp = star_optional_a_star and ?text = "''**''"
      and lastIndex = 0 and j = 2
      and m = "\<lparr>index = 0, full = ''**'', groups = [Some ''*'', None, Some ''*'']\<rparr>"
      and editor = "typed ''**''" and batch = "\<lparr>batch_type = ''default''\<rparr>"
      and target = "Attribute ''bold''" and getValidRanges = "\<lambda>ranges key. ranges"]
  by (simp add: pattern_simps threeGroups_def typed_simps)

text \<open>
  C7. On a qualifying event where the test output has an empty \<open>remove\<close> or an empty
  \<open>format\<close>, the listener enqueues no change: whatever the writer calls mean to the
  host, the document and the number of batches are what they were after the typed
  character.
\<close>

theorem no_match_no_change:
  assumes "qualifying editor batch"
    and "testCallback src (leadingText editor) lastIndex = Some (Inr testOutput, lastIndex')"
    and "remove testOutput = [] \<or> format testOutput = []"
  shows "\<exists>evs. changeHandler src target getValidRanges editor batch lastIndex
                  = Some (Inr evs, lastIndex')
               \<and> (\<forall>ops. EnqueueChange ops \<notin> set evs)
               \<and> runEvents write evs (document, batches) = (document, batches)"
proof -
  from assms(3)
  have "testOutputToRanges (caretBlock editor) (format testOutput) = []
         \<or> testOutputToRanges (caretBlock editor) (remove testOutput) = []"
    by (auto simp: testOutputToRanges_def)
  with assms(2)
  have "changeHandler src target getValidRanges editor batch lastIndex
           = Some (Inr [Tested (leadingText editor)], lastIndex')"
    by (simp add: handler_qualifying [OF assms(1)])
  then show ?thesis by simp
qed

theorem no_match_no_change_witness:
  "\<exists>evs. changeHandler (RegExp star_lazy_star) (Attribute ''bold'') (\<lambda>ranges key. ranges)
            (typed ''*foobar'') \<lparr>batch_type = ''default''\<rparr> 0 = Some (Inr evs, 0)
         \<and> (\<forall>ops. EnqueueChange ops \<notin> set evs)
         \<and> runEvents (\<lambda>doc call. call # doc) evs ([], 1) = ([], 1)"
proof -
  have t: "testCallback (RegExp star_lazy_star) ''*foobar'' 0
             = Some (Inr \<lparr>remove = [], format = []\<rparr>, 0)"
    by (simp add: testCallback_def whileExec.simps pattern_simps)
  show ?thesis
    using no_match_no_change [of "typed ''*foobar''" "\<lparr>batch_type = ''default''\<rparr>"
      "RegExp star_lazy_star" 0 "\<lparr>remove = [], format = []\<rparr>" 0
      "Attribute ''bold''" "\<lambda>ranges key. ranges" "\<lambda>doc call. call # doc" "[]" 1]
    by (simp add: typed_qualifying typed_leadingText t)
qed

text \<open>
  C8. \<open>testOutputToRanges\<close> drops a pair whose first or second bound is
  \<open>undefined\<close>: the result is what it is without that pair, and no error is possible.
  A pair \<open>[a, b]\<close> becomes, at its place, the range from offset \<open>a\<close> to offset
  \<open>b\<close> of the block.
\<close>

theorem testOutputToRanges_drops_and_converts:
  "(at array 0 = None \<or> at array 1 = None \<longrightarrow>
      testOutputToRanges block (xs @ array # ys) = testOutputToRanges block (xs @ ys))
   \<and> (at array 0 = Some a \<and> at array 1 = Some b \<longrightarrow>
      testOutputToRanges block (xs @ array # ys) =
        testOutputToRanges block xs
          @ \<lparr>range_start = \<lparr>parent = block, offset = a\<rparr>,
              range_end = \<lparr>parent = block, offset = b\<rparr>\<rparr>
          # testOutputToRanges block ys)"
proof (intro conjI impI)
  assume "at array 0 = None \<or> at array 1 = None"
  then have dropped: "\<not> (at array 0 \<noteq> None \<and> at array 1 \<noteq> None)"
    by auto
  show "testOutputToRanges block (xs @ array # ys) = testOutputToRanges block (xs @ ys)"
    using dropped by (simp add: testOutputToRanges_def)
next
  assume bounds: "at array 0 = Some a \<and> at array 1 = Some b"
  then have kept: "at array 0 \<noteq> None \<and> at array 1 \<noteq> None"
    by simp
  show "testOutputToRanges block (xs @ array # ys) =
        testOutputToRanges block xs
          @ \<lparr>range_start = \<lparr>parent = block, offset = a\<rparr>,
              range_end = \<lparr>parent = block, offset = b\<rparr>\<rparr>
          # testOutputToRanges block ys"
    using bounds kept
    by (simp add: testOutputToRanges_def createRange_def createPositionAt_def)
qed

theorem testOutputToRanges_drops_and_converts_witness:
  "testOutputToRanges (paragraphElement ''*bold*'') ([[Some 0, Some 1]] @ [] # [[Some 5]])
     = testOutputToRanges (paragraphElement ''*bold*'') ([[Some 0, Some 1]] @ [[Some 5]])
   \<and> testOutputToRanges (paragraphElement ''*bold*'') ([[None, Some 1]] @ [Some 1, Some 5] # [[]])
     = [inBlock ''*bold*'' 1 5]"
  using testOutputToRanges_drops_and_converts
          [where array = "[]" and block = "paragraphElement ''*bold*''"
             and xs = "[[Some 0, Some 1]]" and ys = "[[Some 5]]"]
        testOutputToRanges_drops_and_converts
          [where array = "[Some 1, Some 5]" and a = 1 and b = 5
             and block = "paragraphElement ''*bold*''" and xs = "[[None, Some 1]]" and ys = "[[]]"]
  by (simp add: at_def inBlock_def testOutputToRanges_def)

text \<open>
  C9. What the code does where the claim wants two runs on the same text to agree: a run
  that raised leaves \<open>lastIndex\<close> at the end of its last match, and the next run scans
  from there. The witness is the failing input: after the run on \<open>**\<close> has raised,
  the first run on \<open>*a*\<close> finds nothing and the second run on \<open>*a*\<close> finds the
  match.
\<close>

theorem lastIndex_survives_error:
  assumes "exec regExp text lastIndex = (Some m, j)"
    and "4 \<le> result_length m" and "\<not> threeGroups m"
  shows "invocations (RegExp regExp) lastIndex (text # texts)
           = Some (Inl TypeError) # invocations (RegExp regExp) j texts"
  using whileExec_TypeError [OF assms, of "[]" "[]"] by (simp add: testCallback_def)

theorem lastIndex_survives_error_witness:
  "invocations (RegExp star_optional_a_star) 0 [''**'', ''*a*'', ''*a*'']
     = [Some (Inl TypeError),
        Some (Inr \<lparr>remove = [], format = []\<rparr>),
        Some (Inr \<lparr>remove = [[Some 0, Some 1], [Some 2, Some 3]], format = [[Some 1, Some 2]]\<rparr>)]"
  using lastIndex_survives_error [where regExp = star_optional_a_star and ?text = "''**''"
      and lastIndex = 0 and j = 2
      and m = "\<lparr>index = 0, full = ''**'', groups = [Some ''*'', None, Some ''*'']\<rparr>"
      and texts = "[''*a*'', ''*a*'']"]
  by (simp add: pattern_simps threeGroups_def testCallback_def whileExec.simps)

text \<open>
  C10. When the formatting target is a callback, \<open>attributeKey\<close> stays
  \<open>undefined\<close>; the listener still asks the schema for the valid ranges, with that
  undefined attribute name, and hands the answer to the callback. With an attribute name
  the query is made with that name.
\<close>

theorem callback_target_narrowing:
  assumes "qualifying editor batch"
    and "testCallback src (leadingText editor) lastIndex = Some (Inr testOutput, lastIndex')"
    and "rangesToFormat = testOutputToRanges (caretBlock editor) (format testOutput)"
    and "rangesToRemove = testOutputToRanges (caretBlock editor) (remove testOutput)"
    and "rangesToFormat \<noteq> []" and "rangesToRemove \<noteq> []"
  shows "attributeKey (FormatCallback f) = None
    \<and> changeHandler src (FormatCallback f) getValidRanges editor batch lastIndex
        = Some (Inr [Tested (leadingText editor),
                     EnqueueChange (f (getValidRanges rangesToFormat None)
                                      @ map Remove (rev rangesToRemove))],
                lastIndex')
    \<and> changeHandler src (Attribute a) getValidRanges editor batch lastIndex
        = Some (Inr [Tested (leadingText editor),
                     EnqueueChange (map (SetAttribute (Some a) True)
                                        (getValidRanges rangesToFormat (Some a))
                                      @ RemoveSelectionAttribute (Some a)
                                      # map Remove (rev rangesToRemove))],
                lastIndex')"
  using assms(2-6)
  by (simp add: handler_qualifying [OF assms(1)] attributeKey_def formatCallback_def)

theorem callback_target_narrowing_witness:
  "changeHandler (RegExp star_lazy_star)
      (FormatCallback (\<lambda>validRanges. map (SetAttribute (Some ''bold'') True) validRanges))
      (\<lambda>ranges key. if key = None then [] else ranges)
      (typed ''*foobar*'') \<lparr>batch_type = ''default''\<rparr> 0
     = Some (Inr [Tested ''*foobar*'',
                  EnqueueChange [Remove (inBlock ''*foobar*'' 7 8),
                                 Remove (inBlock ''*foobar*'' 0 1)]], 0)"
  using callback_target_narrowing [where editor = "typed ''*foobar*''"
      and batch = "\<lparr>batch_type = ''default''\<rparr>" and src = "RegExp star_lazy_star"
      and lastIndex = 0 and lastIndex' = 0
      and testOutput = "\<lparr>remove = [[Some 0, Some 1], [Some 7, Some 8]], format = [[Some 1, Some 7]]\<rparr>"
      and rangesToFormat = "[inBlock ''*foobar*'' 1 7]"
      and rangesToRemove = "[inBlock ''*foobar*'' 0 1, inBlock ''*foobar*'' 7 8]"
      and f = "\<lambda>validRanges. map (SetAttribute (Some ''bold'') True) validRanges"
      and getValidRanges = "\<lambda>ranges key. if key = None then [] else ranges"]
  by (simp add: typed_simps foobar_test ranges_simps)

subsection \<open>Further properties of the default test callback\<close>

text \<open>
  X1. A match with fewer than three groups stops the loop without an error (line 93): the
  callback returns what was collected, which is nothing since every match of such a
  pattern stops it, and the listener does no more than the test. \<open>lastIndex\<close> stays
  at the end of that match. The witness is the first test of the repository.
\<close>

theorem fewer_groups_stop:
  assumes "exec regExp text lastIndex = (Some m, j)" and "result_length m < 4"
  shows "whileExec regExp text lastIndex rem fmt = Some (Inr \<lparr>remove = rem, format = fmt\<rparr>, j)
    \<and> testCallback (RegExp regExp) text lastIndex = Some (Inr \<lparr>remove = [], format = []\<rparr>, j)
    \<and> (qualifying editor batch \<and> leadingText editor = text \<longrightarrow>
         changeHandler (RegExp regExp) target getValidRanges editor batch lastIndex
           = Some (Inr [Tested text], j))"
  using whileExec_break [OF assms]
  by (auto simp: testCallback_def handler_qualifying testOutputToRanges_def)

theorem fewer_groups_stop_witness:
  "testCallback (RegExp star_lazy_star_two_groups) ''*foobar*'' 0
     = Some (Inr \<lparr>remove = [], format = []\<rparr>, 8)
   \<and> changeHandler (RegExp star_lazy_star_two_groups) (Attribute ''testAttribute'')
        (\<lambda>ranges key. ranges) (typed ''*foobar*'') \<lparr>batch_type = ''default''\<rparr> 0
     = Some (Inr [Tested ''*foobar*''], 8)"
  using fewer_groups_stop [where regExp = star_lazy_star_two_groups and ?text = "''*foobar*''"
      and lastIndex = 0 and j = 8
      and m = "\<lparr>index = 0, full = ''*foobar*'', groups = [Some ''*'', Some ''foobar'']\<rparr>"
      and editor = "typed ''*foobar*''" and batch = "\<lparr>batch_type = ''default''\<rparr>"
      and target = "Attribute ''testAttribute''" and getValidRanges = "\<lambda>ranges key. ranges"]
  by (simp add: pattern_simps typed_simps)

text \<open>
  X2. For a pattern that never matches the empty string the default test callback returns,
  with a result or with the TypeError, from every value of \<open>lastIndex\<close>.
\<close>

theorem default_test_returns:
  assumes "progressing regExp"
  shows "\<exists>r. testCallback (RegExp regExp) text lastIndex = Some r"
  using whileExec_returns [OF assms] by (simp add: testCallback_def)

theorem default_test_returns_witness:
  "\<exists>r. testCallback (RegExp star_lazy_star) ''*foo** bar*'' 3 = Some r"
  using default_test_returns [OF progressing_star_lazy_star] .

text \<open>
  X3. For a pattern that matches the empty string the loop does not end: \<open>exec\<close> leaves
  \<open>lastIndex\<close> where it is and answers the same match again.
\<close>

theorem empty_match_never_returns:
  assumes "lastIndex \<le> length text"
  shows "testCallback (RegExp empty_groups) text lastIndex = None
    \<and> (qualifying editor batch \<and> leadingText editor = text \<longrightarrow>
         changeHandler (RegExp empty_groups) target getValidRanges editor batch lastIndex = None)"
  using whileExec_never [OF assms] by (auto simp: testCallback_def handler_qualifying)

theorem empty_match_never_returns_witness:
  "changeHandler (RegExp empty_groups) (Attribute ''bold'') (\<lambda>ranges key. ranges)
     (typed ''a'') \<lparr>batch_type = ''default''\<rparr> 0 = None"
  using empty_match_never_returns [where lastIndex = 0 and ?text = "''a''"
      and editor = "typed ''a''" and batch = "\<lparr>batch_type = ''default''\<rparr>"
      and target = "Attribute ''bold''" and getValidRanges = "\<lambda>ranges key. ranges"]
  by (simp add: typed_simps)

text \<open>
  X4. When the groups 1, 2 and 3 take part in every match and no match is empty, every run
  of the default test callback leaves \<open>lastIndex\<close> at 0, and a sequence of runs gives
  for each text what a single run on that text gives.
\<close>

theorem stateless_when_groups_take_part:
  assumes "progressing regExp" and "participating regExp"
  shows "invocations (RegExp regExp) 0 texts
           = map (\<lambda>text. map_option fst (testCallback (RegExp regExp) text 0)) texts"
proof (induction texts)
  case Nil
  show ?case by simp
next
  case (Cons t texts)
  from testCallback_stateless [OF assms] obtain out
    where "testCallback (RegExp regExp) t 0 = Some (Inr out, 0)" by blast
  with Cons show ?case by simp
qed

theorem stateless_when_groups_take_part_witness:
  "invocations (RegExp star_lazy_star) 0 [''**'', ''*a*'', ''*a*'']
     = [Some (Inr \<lparr>remove = [], format = []\<rparr>),
        Some (Inr \<lparr>remove = [[Some 0, Some 1], [Some 2, Some 3]], format = [[Some 1, Some 2]]\<rparr>),
        Some (Inr \<lparr>remove = [[Some 0, Some 1], [Some 2, Some 3]], format = [[Some 1, Some 2]]\<rparr>)]"
  using stateless_when_groups_take_part
          [OF progressing_star_lazy_star participating_star_lazy_star, of "[''**'', ''*a*'', ''*a*'']"]
  by (simp add: testCallback_def whileExec.simps pattern_simps)

end
